theory Spec2Isabelle
  imports Main "HOL-Library.Word"
begin

section \<open>JavaScript values used by the chat page\<close>

text \<open>
  A JavaScript string is a sequence of UTF-16 code units. String literals of the source
  are ASCII and are written \<open>str ''...''\<close>.
\<close>

type_synonym js_string = "16 word list"

definition str :: "string \<Rightarrow> js_string" where
  "str cs = map of_char cs"

text \<open>
  \<open>String.prototype.trim\<close> removes the WhiteSpace and LineTerminator code points of
  ECMAScript from both ends: TAB, LF, VT, FF, CR, SP, NBSP, U+1680, U+2000..U+200A,
  U+2028, U+2029, U+202F, U+205F, U+3000 and U+FEFF.
\<close>

definition isWhiteSpace :: "16 word \<Rightarrow> bool" where
  "isWhiteSpace c \<longleftrightarrow>
     c = 0x0009 \<or> c = 0x000A \<or> c = 0x000B \<or> c = 0x000C \<or> c = 0x000D \<or> c = 0x0020 \<or>
     c = 0x00A0 \<or> c = 0x1680 \<or> (0x2000 \<le> c \<and> c \<le> 0x200A) \<or> c = 0x2028 \<or> c = 0x2029 \<or>
     c = 0x202F \<or> c = 0x205F \<or> c = 0x3000 \<or> c = 0xFEFF"

definition trim :: "js_string \<Rightarrow> js_string" where
  "trim s = rev (dropWhile isWhiteSpace (rev (dropWhile isWhiteSpace s)))"

text \<open>Truthiness: the empty string is falsy; \<open>null\<close> and \<open>0\<close> are falsy numbers.\<close>

definition truthy_string :: "js_string \<Rightarrow> bool" where
  "truthy_string s \<longleftrightarrow> s \<noteq> []"

fun truthy_number :: "int option \<Rightarrow> bool" where
  "truthy_number None = False"
| "truthy_number (Some n) = (n \<noteq> 0)"

text \<open>A value caught by \<open>onError\<close>: an \<open>Error\<close> instance with its message, or anything else.\<close>

datatype thrown = ErrorObject js_string | OtherValue

section \<open>Entities of shared/schema.ts as the client sees them\<close>

text \<open>
  \<open>Conversation\<close> and \<open>Message\<close> are the select types of the two tables: a nullable
  column is \<open>T | null\<close>, a timestamp is milliseconds since the epoch.
\<close>

record conversation =
  conv_id :: int
  conv_userId :: "js_string option"
  conv_title :: "js_string option"
  conv_createdAt :: "int option"

record message =
  msg_id :: int
  msg_conversationId :: "int option"
  msg_role :: js_string
  msg_content :: js_string
  msg_timestamp :: "int option"
  msg_isTyping :: "bool option"

section \<open>The chat page: state\<close>

record QuickAction =
  qa_id :: js_string
  qa_label :: js_string
  qa_icon :: js_string
  qa_action :: js_string

definition quickActions :: "QuickAction list" where
  "quickActions =
    [\<lparr>qa_id = str ''symptoms'', qa_label = str ''Common Symptoms'',
       qa_icon = [0xD83D, 0xDC8A], qa_action = str ''symptoms''\<rparr>,
     \<lparr>qa_id = str ''medications'', qa_label = str ''Medication Info'',
       qa_icon = [0xD83D, 0xDC89], qa_action = str ''medications''\<rparr>,
     \<lparr>qa_id = str ''wellness'', qa_label = str ''Wellness Tips'',
       qa_icon = [0xD83C, 0xDFC3, 0x200D, 0x2642, 0xFE0F], qa_action = str ''wellness''\<rparr>,
     \<lparr>qa_id = str ''emergency'', qa_label = str ''Emergency Info'',
       qa_icon = [0xD83D, 0xDEA8], qa_action = str ''emergency''\<rparr>]"

text \<open>The HTTP requests the page issues through \<open>apiRequest\<close> and the query function.\<close>

datatype request =
    POST_conversations js_string js_string
  | GET_messages int
  | POST_messages int js_string
  | POST_quick_actions js_string

record toast =
  toast_title :: js_string
  toast_description :: js_string
  toast_variant :: js_string

text \<open>
  A \<open>useMutation\<close> observer. Every \<open>mutate\<close> call starts a new mutation, numbered
  from 1; \<open>unsettled\<close> holds the mutations whose request has not completed, and
  \<open>isPending\<close> reports the latest one only.
\<close>

record mutation =
  mutateCount :: nat
  unsettled :: "nat list"

definition isPending :: "mutation \<Rightarrow> bool" where
  "isPending m \<longleftrightarrow> mutateCount m \<in> set (unsettled m)"

definition start :: "mutation \<Rightarrow> mutation" where
  "start m = \<lparr>mutateCount = Suc (mutateCount m),
              unsettled = unsettled m @ [Suc (mutateCount m)]\<rparr>"

definition settle :: "nat \<Rightarrow> mutation \<Rightarrow> mutation" where
  "settle i m = m\<lparr>unsettled := removeAll i (unsettled m)\<rparr>"

text \<open>
  The component state: the three \<open>useState\<close> cells, the three mutations, the query cache
  entry per conversation id of the query key, the toasts shown and the requests issued,
  both in order.
\<close>

record chat =
  mounted :: bool
  conversationId :: "int option"
  messageInput :: js_string
  isTyping :: bool
  createConversationMutation :: mutation
  sendMessageMutation :: mutation
  quickActionMutation :: mutation
  queryData :: "int option \<rightharpoonup> message list"
  queryFetching :: bool
  toasts :: "toast list"
  requests :: "request list"

definition idle :: mutation where
  "idle = \<lparr>mutateCount = 0, unsettled = []\<rparr>"

definition init :: chat where
  "init = \<lparr>mounted = False, conversationId = None, messageInput = [], isTyping = False,
           createConversationMutation = idle, sendMessageMutation = idle,
           quickActionMutation = idle, queryData = Map.empty, queryFetching = False,
           toasts = [], requests = []\<rparr>"

section \<open>The message query\<close>

text \<open>\<open>enabled: !!conversationId\<close>.\<close>

definition query_enabled :: "chat \<Rightarrow> bool" where
  "query_enabled s \<longleftrightarrow> truthy_number (conversationId s)"

text \<open>\<open>const { data: messages = [] } = useQuery(...)\<close>: the displayed list.\<close>

definition messages :: "chat \<Rightarrow> message list" where
  "messages s = (case queryData s (conversationId s) of None \<Rightarrow> [] | Some ms \<Rightarrow> ms)"

text \<open>The query function: one GET for the conversation of the current key.\<close>

definition fetchMessages :: "chat \<Rightarrow> chat" where
  "fetchMessages s =
     (case conversationId s of
        None \<Rightarrow> s
      | Some c \<Rightarrow> s\<lparr>queryFetching := True, requests := requests s @ [GET_messages c]\<rparr>)"

text \<open>\<open>invalidateQueries\<close> refetches the query when it is enabled and does nothing else.\<close>

definition invalidateQueries :: "chat \<Rightarrow> chat" where
  "invalidateQueries s = (if query_enabled s then fetchMessages s else s)"

text \<open>\<open>setQueryData(key, updater)\<close> with the key of the current conversation id.\<close>

definition setQueryData :: "(message list option \<Rightarrow> message list) \<Rightarrow> chat \<Rightarrow> chat" where
  "setQueryData updater s =
     s\<lparr>queryData := (queryData s)(conversationId s \<mapsto> updater (queryData s (conversationId s)))\<rparr>"

section \<open>createConversationMutation\<close>

definition createConversation_mutationFn :: request where
  "createConversation_mutationFn = POST_conversations (str ''anonymous'') (str ''MedAssist Chat'')"

definition createConversation_onSuccess :: "conversation \<Rightarrow> chat \<Rightarrow> chat" where
  "createConversation_onSuccess conversation s =
     (let s' = s\<lparr>conversationId := Some (conv_id conversation)\<rparr>
      in if query_enabled s' then fetchMessages s' else s')"

definition createConversation_onError :: "chat \<Rightarrow> chat" where
  "createConversation_onError s =
     s\<lparr>toasts := toasts s @
        [\<lparr>toast_title = str ''Error'',
          toast_description = str ''Failed to start conversation. Please refresh the page.'',
          toast_variant = str ''destructive''\<rparr>]\<rparr>"

definition createConversation_mutate :: "chat \<Rightarrow> chat" where
  "createConversation_mutate s =
     s\<lparr>createConversationMutation := start (createConversationMutation s),
       requests := requests s @ [createConversation_mutationFn]\<rparr>"

section \<open>sendMessageMutation\<close>

text \<open>The mutation function throws before any request when no conversation id is held.\<close>

definition sendMessage_mutationFn :: "chat \<Rightarrow> js_string \<Rightarrow> thrown + request" where
  "sendMessage_mutationFn s content =
     (if \<not> truthy_number (conversationId s) then Inl (ErrorObject (str ''No conversation''))
      else case conversationId s of
             None \<Rightarrow> Inl (ErrorObject (str ''No conversation''))
           | Some c \<Rightarrow> Inr (POST_messages c content))"

definition sendMessage_onMutate :: "chat \<Rightarrow> chat" where
  "sendMessage_onMutate s = s\<lparr>isTyping := True\<rparr>"

definition sendMessage_onSuccess :: "chat \<Rightarrow> chat" where
  "sendMessage_onSuccess s = (invalidateQueries s)\<lparr>messageInput := [], isTyping := False\<rparr>"

definition sendMessage_onError :: "thrown \<Rightarrow> chat \<Rightarrow> chat" where
  "sendMessage_onError error s =
     s\<lparr>isTyping := False,
       toasts := toasts s @
        [\<lparr>toast_title = str ''Error'',
          toast_description =
            (case error of ErrorObject m \<Rightarrow> m | OtherValue \<Rightarrow> str ''Failed to send message''),
          toast_variant = str ''destructive''\<rparr>]\<rparr>"

text \<open>
  \<open>mutate(content)\<close>: a new mutation starts, \<open>onMutate\<close> runs, then the mutation
  function. A throw of the mutation function settles the mutation at once through
  \<open>onError\<close>; otherwise the request leaves and the mutation stays pending.
\<close>

definition sendMessage_mutate :: "js_string \<Rightarrow> chat \<Rightarrow> chat" where
  "sendMessage_mutate content s =
     (let s1 = sendMessage_onMutate (s\<lparr>sendMessageMutation := start (sendMessageMutation s)\<rparr>)
      in case sendMessage_mutationFn s1 content of
           Inr req \<Rightarrow> s1\<lparr>requests := requests s1 @ [req]\<rparr>
         | Inl error \<Rightarrow>
             sendMessage_onError error
               (s1\<lparr>sendMessageMutation :=
                    settle (mutateCount (sendMessageMutation s1)) (sendMessageMutation s1)\<rparr>))"

section \<open>quickActionMutation\<close>

definition quickAction_mutationFn :: "js_string \<Rightarrow> request" where
  "quickAction_mutationFn action = POST_quick_actions action"

definition quickAction_onMutate :: "chat \<Rightarrow> chat" where
  "quickAction_onMutate s = s\<lparr>isTyping := True\<rparr>"

text \<open>
  \<open>content\<close> is \<open>data.content\<close>; \<open>now\<close> is what \<open>Date.now()\<close> returns and \<open>date\<close>
  what \<open>new Date()\<close> holds.
\<close>

definition fakeAssistantMessage :: "int \<Rightarrow> js_string \<Rightarrow> int \<Rightarrow> int \<Rightarrow> message" where
  "fakeAssistantMessage c content now date =
     \<lparr>msg_id = now, msg_conversationId = Some c, msg_role = str ''assistant'',
      msg_content = content, msg_timestamp = Some date, msg_isTyping = Some False\<rparr>"

definition quickAction_onSuccess :: "js_string \<Rightarrow> int \<Rightarrow> int \<Rightarrow> chat \<Rightarrow> chat" where
  "quickAction_onSuccess content now date s =
     (let s' =
        (if truthy_number (conversationId s) then
           (case conversationId s of
              None \<Rightarrow> s
            | Some c \<Rightarrow>
                setQueryData
                  (\<lambda>old. (case old of None \<Rightarrow> [] | Some ms \<Rightarrow> ms) @
                          [fakeAssistantMessage c content now date]) s)
         else s)
      in s'\<lparr>isTyping := False\<rparr>)"

definition quickAction_onError :: "thrown \<Rightarrow> chat \<Rightarrow> chat" where
  "quickAction_onError error s =
     s\<lparr>isTyping := False,
       toasts := toasts s @
        [\<lparr>toast_title = str ''Error'',
          toast_description =
            (case error of ErrorObject m \<Rightarrow> m
                         | OtherValue \<Rightarrow> str ''Failed to get quick action response''),
          toast_variant = str ''destructive''\<rparr>]\<rparr>"

definition quickAction_mutate :: "js_string \<Rightarrow> chat \<Rightarrow> chat" where
  "quickAction_mutate action s =
     (let s1 = quickAction_onMutate (s\<lparr>quickActionMutation := start (quickActionMutation s)\<rparr>)
      in s1\<lparr>requests := requests s1 @ [quickAction_mutationFn action]\<rparr>)"

section \<open>Handlers of the component\<close>

definition handleSendMessage :: "chat \<Rightarrow> chat" where
  "handleSendMessage s =
     (if \<not> truthy_string (trim (messageInput s)) \<or> isPending (sendMessageMutation s) then s
      else sendMessage_mutate (trim (messageInput s)) s)"

definition handleQuickAction :: "js_string \<Rightarrow> chat \<Rightarrow> chat" where
  "handleQuickAction action s = quickAction_mutate action s"

definition handleKeyDown :: "js_string \<Rightarrow> bool \<Rightarrow> chat \<Rightarrow> chat" where
  "handleKeyDown key shiftKey s =
     (if key = str ''Enter'' \<and> \<not> shiftKey then handleSendMessage s else s)"

text \<open>The mount effect, after the first render (when the query fetches if it is enabled).\<close>

definition mount :: "chat \<Rightarrow> chat" where
  "mount s =
     (let s1 = s\<lparr>mounted := True\<rparr>;
          s2 = (if query_enabled s1 then fetchMessages s1 else s1)
      in if \<not> truthy_number (conversationId s2) then createConversation_mutate s2 else s2)"

text \<open>The \<open>disabled\<close> attributes of the rendered controls.\<close>

definition sendButton_disabled :: "chat \<Rightarrow> bool" where
  "sendButton_disabled s \<longleftrightarrow>
     \<not> truthy_string (trim (messageInput s)) \<or> isPending (sendMessageMutation s)"

definition textarea_disabled :: "chat \<Rightarrow> bool" where
  "textarea_disabled s \<longleftrightarrow> isPending (sendMessageMutation s)"

definition quickActionButton_disabled :: "chat \<Rightarrow> bool" where
  "quickActionButton_disabled s \<longleftrightarrow> isPending (quickActionMutation s)"

section \<open>Events\<close>

text \<open>
  What can happen to a mounted page: the user acts on a control that is not disabled,
  or a request that is in flight completes. A completion names the mutation it belongs
  to. Any other event leaves the state as it is. Each event is handled on the state of
  the render that precedes it, so a handler reads the values the previous event left.
\<close>

datatype event =
    Mount
  | CreateConversationSuccess nat conversation
  | CreateConversationError nat thrown
  | MessagesFetched "message list"
  | MessagesFetchError
  | Change js_string
  | KeyDown js_string bool
  | ClickSend
  | SendMessageSuccess nat
  | SendMessageError nat thrown
  | ClickQuickAction js_string
  | QuickActionSuccess nat js_string int int
  | QuickActionError nat thrown

fun handle :: "chat \<Rightarrow> event \<Rightarrow> chat" where
  "handle s Mount = s"
| "handle s (CreateConversationSuccess i conversation) =
     (if i \<in> set (unsettled (createConversationMutation s)) then
        createConversation_onSuccess conversation
          (s\<lparr>createConversationMutation := settle i (createConversationMutation s)\<rparr>)
      else s)"
| "handle s (CreateConversationError i error) =
     (if i \<in> set (unsettled (createConversationMutation s)) then
        createConversation_onError
          (s\<lparr>createConversationMutation := settle i (createConversationMutation s)\<rparr>)
      else s)"
| "handle s (MessagesFetched ms) =
     (if queryFetching s then
        s\<lparr>queryData := (queryData s)(conversationId s \<mapsto> ms), queryFetching := False\<rparr>
      else s)"
| "handle s MessagesFetchError =
     (if queryFetching s then s\<lparr>queryFetching := False\<rparr> else s)"
| "handle s (Change v) = (if textarea_disabled s then s else s\<lparr>messageInput := v\<rparr>)"
| "handle s (KeyDown key shiftKey) =
     (if textarea_disabled s then s else handleKeyDown key shiftKey s)"
| "handle s ClickSend = (if sendButton_disabled s then s else handleSendMessage s)"
| "handle s (SendMessageSuccess i) =
     (if i \<in> set (unsettled (sendMessageMutation s)) then
        sendMessage_onSuccess (s\<lparr>sendMessageMutation := settle i (sendMessageMutation s)\<rparr>)
      else s)"
| "handle s (SendMessageError i error) =
     (if i \<in> set (unsettled (sendMessageMutation s)) then
        sendMessage_onError error
          (s\<lparr>sendMessageMutation := settle i (sendMessageMutation s)\<rparr>)
      else s)"
| "handle s (ClickQuickAction action) =
     (if quickActionButton_disabled s \<or> action \<notin> set (map qa_action quickActions) then s
      else handleQuickAction action s)"
| "handle s (QuickActionSuccess i content now date) =
     (if i \<in> set (unsettled (quickActionMutation s)) then
        quickAction_onSuccess content now date
          (s\<lparr>quickActionMutation := settle i (quickActionMutation s)\<rparr>)
      else s)"
| "handle s (QuickActionError i error) =
     (if i \<in> set (unsettled (quickActionMutation s)) then
        quickAction_onError error
          (s\<lparr>quickActionMutation := settle i (quickActionMutation s)\<rparr>)
      else s)"

definition step :: "chat \<Rightarrow> event \<Rightarrow> chat" where
  "step s e =
     (if mounted s then handle s e
      else (case e of Mount \<Rightarrow> mount s | _ \<Rightarrow> s))"

definition run :: "chat \<Rightarrow> event list \<Rightarrow> chat" where
  "run s es = foldl step s es"

text \<open>The states a session can be in: those a sequence of events reaches from \<open>init\<close>.\<close>

fun is_POST_conversations :: "request \<Rightarrow> bool" where
  "is_POST_conversations (POST_conversations userId title) = True"
| "is_POST_conversations _ = False"

text \<open>
  What holds in every state of a session: before the mount nothing has happened; the mount
  starts the only conversation request; a stored conversation id means that request has
  completed; a send in flight is the latest one and was issued with an id held; a quick
  action in flight is the latest one; every message request went to the stored id.
\<close>

definition session_inv :: "chat \<Rightarrow> bool" where
  "session_inv s \<longleftrightarrow>
     (\<not> mounted s \<longrightarrow> s = init) \<and>
     (mounted s \<longrightarrow> mutateCount (createConversationMutation s) = 1 \<and>
        length (filter is_POST_conversations (requests s)) = 1) \<and>
     (unsettled (createConversationMutation s) = [] \<or>
        unsettled (createConversationMutation s) = [1] \<and> conversationId s = None) \<and>
     (unsettled (sendMessageMutation s) = [] \<or>
        unsettled (sendMessageMutation s) = [mutateCount (sendMessageMutation s)] \<and>
        truthy_number (conversationId s)) \<and>
     (unsettled (quickActionMutation s) = [] \<or>
        unsettled (quickActionMutation s) = [mutateCount (quickActionMutation s)]) \<and>
     (\<forall>c content. POST_messages c content \<in> set (requests s) \<longrightarrow> conversationId s = Some c)"

text \<open>Concrete sessions used below.\<close>

definition conversation7 :: conversation where
  "conversation7 = \<lparr>conv_id = 7, conv_userId = Some (str ''anonymous''),
                     conv_title = Some (str ''MedAssist Chat''), conv_createdAt = Some 0\<rparr>"


definition ready_with_draft :: chat where
  "ready_with_draft = run init [Mount, CreateConversationSuccess 1 conversation7, Change (str '' hi '')]"

definition quick_action_while_initializing :: chat where
  "quick_action_while_initializing = run init [Mount, ClickQuickAction (str ''symptoms'')]"

definition both_in_flight :: chat where
  "both_in_flight = run ready_with_draft [ClickSend, ClickQuickAction (str ''symptoms'')]"

section \<open>shared/schema.ts\<close>

text \<open>
  A table is the list of its columns under their property names. A column builder
  records the column type and the modifiers applied to it; \<open>serial\<close> columns are
  not-null with a default (the sequence), and a primary key is not-null.
\<close>

datatype js_value = Null | Bool bool | Number int | String js_string | Date int

datatype column_type = PgSerial | PgText | PgInteger | PgBoolean | PgTimestamp

datatype column_default = DefaultValue js_value | DefaultNow

record column =
  col_name :: string
  col_type :: column_type
  col_notNull :: bool
  col_hasDefault :: bool
  col_default :: "column_default option"
  col_primaryKey :: bool
  col_unique :: bool
  col_references :: "string option"

definition column_of :: "column_type \<Rightarrow> string \<Rightarrow> column" where
  "column_of t name = \<lparr>col_name = name, col_type = t, col_notNull = False,
     col_hasDefault = False, col_default = None, col_primaryKey = False, col_unique = False,
     col_references = None\<rparr>"

definition pg_serial :: "string \<Rightarrow> column" where
  "pg_serial name = (column_of PgSerial name)\<lparr>col_notNull := True, col_hasDefault := True\<rparr>"

definition pg_text :: "string \<Rightarrow> column" where
  "pg_text name = column_of PgText name"

definition pg_integer :: "string \<Rightarrow> column" where
  "pg_integer name = column_of PgInteger name"

definition pg_boolean :: "string \<Rightarrow> column" where
  "pg_boolean name = column_of PgBoolean name"

definition pg_timestamp :: "string \<Rightarrow> column" where
  "pg_timestamp name = column_of PgTimestamp name"

definition primaryKey :: "column \<Rightarrow> column" where
  "primaryKey c = c\<lparr>col_primaryKey := True, col_notNull := True\<rparr>"

definition notNull :: "column \<Rightarrow> column" where
  "notNull c = c\<lparr>col_notNull := True\<rparr>"

definition unique_column :: "column \<Rightarrow> column" where
  "unique_column c = c\<lparr>col_unique := True\<rparr>"

definition with_default :: "js_value \<Rightarrow> column \<Rightarrow> column" where
  "with_default v c = c\<lparr>col_hasDefault := True, col_default := Some (DefaultValue v)\<rparr>"

definition defaultNow :: "column \<Rightarrow> column" where
  "defaultNow c = c\<lparr>col_hasDefault := True, col_default := Some DefaultNow\<rparr>"

definition references :: "string \<Rightarrow> column \<Rightarrow> column" where
  "references target c = c\<lparr>col_references := Some target\<rparr>"

type_synonym pg_table = "(string \<times> column) list"

definition users :: pg_table where
  "users =
     [(''id'', primaryKey (pg_serial ''id'')),
      (''username'', unique_column (notNull (pg_text ''username''))),
      (''password'', notNull (pg_text ''password''))]"

definition conversations :: pg_table where
  "conversations =
     [(''id'', primaryKey (pg_serial ''id'')),
      (''userId'', pg_text ''user_id''),
      (''title'', with_default (String (str ''New Conversation'')) (pg_text ''title'')),
      (''createdAt'', defaultNow (pg_timestamp ''created_at''))]"

text \<open>The table \<open>messages\<close> of the schema (the page's list of that name is defined above).\<close>

definition messages_table :: pg_table where
  "messages_table =
     [(''id'', primaryKey (pg_serial ''id'')),
      (''conversationId'', references ''conversations.id'' (pg_integer ''conversation_id'')),
      (''role'', notNull (pg_text ''role'')),
      (''content'', notNull (pg_text ''content'')),
      (''timestamp'', defaultNow (pg_timestamp ''timestamp'')),
      (''isTyping'', with_default (Bool False) (pg_boolean ''is_typing''))]"

text \<open>
  The validation schema \<open>createInsertSchema\<close> derives from a table: one field per column,
  of the column's value type (a text column with no enum list is any string), nullable
  when the column is, optional when the column is nullable or has a default.
\<close>

datatype zod_type = ZodString | ZodNumber | ZodBoolean | ZodDate

record zod_field =
  zf_type :: zod_type
  zf_nullable :: bool
  zf_optional :: bool

type_synonym zod_object = "(string \<times> zod_field) list"

definition zod_of_column :: "column \<Rightarrow> zod_field" where
  "zod_of_column c =
     \<lparr>zf_type = (case col_type c of
                   PgSerial \<Rightarrow> ZodNumber
                 | PgText \<Rightarrow> ZodString
                 | PgInteger \<Rightarrow> ZodNumber
                 | PgBoolean \<Rightarrow> ZodBoolean
                 | PgTimestamp \<Rightarrow> ZodDate),
      zf_nullable = (\<not> col_notNull c),
      zf_optional = (\<not> col_notNull c \<or> col_hasDefault c)\<rparr>"

definition createInsertSchema :: "pg_table \<Rightarrow> zod_object" where
  "createInsertSchema t = map (\<lambda>(k, c). (k, zod_of_column c)) t"

definition pick :: "string list \<Rightarrow> zod_object \<Rightarrow> zod_object" where
  "pick keys shape = filter (\<lambda>(k, f). k \<in> set keys) shape"

definition omit :: "string list \<Rightarrow> zod_object \<Rightarrow> zod_object" where
  "omit keys shape = filter (\<lambda>(k, f). k \<notin> set keys) shape"

definition insertUserSchema :: zod_object where
  "insertUserSchema = pick [''username'', ''password''] (createInsertSchema users)"

definition insertConversationSchema :: zod_object where
  "insertConversationSchema = omit [''id'', ''createdAt''] (createInsertSchema conversations)"

definition insertMessageSchema :: zod_object where
  "insertMessageSchema =
     omit [''id'', ''timestamp'', ''isTyping''] (createInsertSchema messages_table)"

text \<open>
  Parsing an object with a schema: a property that is absent is \<open>undefined\<close>; every field
  of the schema is checked; the result holds the schema's fields that are present, in the
  schema's order, and properties the schema does not name are stripped.
\<close>

type_synonym js_object = "(string \<times> js_value) list"

datatype zod_issue = Required string | InvalidType string

fun has_type :: "zod_type \<Rightarrow> js_value \<Rightarrow> bool" where
  "has_type ZodString (String v) = True"
| "has_type ZodNumber (Number v) = True"
| "has_type ZodBoolean (Bool v) = True"
| "has_type ZodDate (Date v) = True"
| "has_type _ _ = False"

fun field_issues :: "js_object \<Rightarrow> string \<times> zod_field \<Rightarrow> zod_issue list" where
  "field_issues input (k, f) =
     (case map_of input k of
        None \<Rightarrow> if zf_optional f then [] else [Required k]
      | Some Null \<Rightarrow> if zf_nullable f then [] else [InvalidType k]
      | Some v \<Rightarrow> if has_type (zf_type f) v then [] else [InvalidType k])"

fun field_output :: "js_object \<Rightarrow> string \<times> zod_field \<Rightarrow> js_object" where
  "field_output input (k, f) = (case map_of input k of None \<Rightarrow> [] | Some v \<Rightarrow> [(k, v)])"

definition safeParse :: "zod_object \<Rightarrow> js_object \<Rightarrow> zod_issue list + js_object" where
  "safeParse shape input =
     (let issues = concat (map (field_issues input) shape)
      in if issues = [] then Inr (concat (map (field_output input) shape)) else Inl issues)"

section \<open>Auxiliary facts\<close>

lemmas handler_defs =
  query_enabled_def fetchMessages_def invalidateQueries_def setQueryData_def
  createConversation_mutationFn_def createConversation_onSuccess_def
  createConversation_onError_def createConversation_mutate_def
  sendMessage_mutationFn_def sendMessage_onMutate_def sendMessage_onSuccess_def
  sendMessage_onError_def sendMessage_mutate_def
  quickAction_mutationFn_def quickAction_onMutate_def quickAction_onSuccess_def
  quickAction_onError_def quickAction_mutate_def
  handleSendMessage_def handleQuickAction_def handleKeyDown_def mount_def
  sendButton_disabled_def textarea_disabled_def quickActionButton_disabled_def
  isPending_def start_def settle_def

lemma last_dropWhile: "dropWhile P xs \<noteq> [] \<Longrightarrow> last (dropWhile P xs) = last xs"
  by (induction xs) auto

lemma trim_last: "trim s \<noteq> [] \<Longrightarrow> \<not> isWhiteSpace (last (trim s))"
  unfolding trim_def
  by (metis hd_dropWhile last_rev rev_is_Nil_conv)

lemma trim_hd: "trim s \<noteq> [] \<Longrightarrow> \<not> isWhiteSpace (hd (trim s))"
  unfolding trim_def
  by (metis hd_dropWhile hd_rev last_dropWhile last_rev rev_is_Nil_conv dropWhile.simps(1) rev.simps(1))

lemma run_Nil: "run s [] = s"
  by (simp add: run_def)

lemma run_Cons: "run s (e # es) = run (step s e) es"
  by (simp add: run_def)

lemma run_append: "run s (es @ es') = run (run s es) es'"
  by (simp add: run_def)

lemma session_inv_init: "session_inv init"
  by (simp add: session_inv_def init_def idle_def)

lemma session_inv_mount: "session_inv (mount init)"
  by (simp add: session_inv_def init_def idle_def handler_defs)

lemma session_inv_handle:
  assumes "mounted s" and "session_inv s"
  shows "session_inv (handle s e)"
  using assms
  by (cases e) (auto simp: session_inv_def handler_defs Let_def split: option.splits sum.splits if_splits)

lemma session_inv_step: "session_inv s \<Longrightarrow> session_inv (step s e)"
proof (cases "mounted s")
  case True
  assume "session_inv s"
  with True show ?thesis by (simp add: step_def session_inv_handle)
next
  case False
  assume "session_inv s"
  with False have "s = init" by (simp add: session_inv_def)
  then show ?thesis
    using session_inv_init session_inv_mount by (cases e) (simp_all add: step_def init_def)
qed

lemma session_inv_run: "session_inv s \<Longrightarrow> session_inv (run s es)"
  by (induction es arbitrary: s) (simp_all add: run_Nil run_Cons session_inv_step)

lemma session_inv_reachable: "session_inv (run init es)"
  by (simp add: session_inv_run session_inv_init)

lemmas eval_defs = run_def step_def init_def idle_def handler_defs Let_def
  truthy_string_def trim_def str_def isWhiteSpace_def quickActions_def conversation7_def


lemma ready_with_draft_eq:
  "ready_with_draft =
     \<lparr>mounted = True, conversationId = Some 7, messageInput = str '' hi '', isTyping = False,
      createConversationMutation = \<lparr>mutateCount = 1, unsettled = []\<rparr>,
      sendMessageMutation = idle, quickActionMutation = idle, queryData = Map.empty,
      queryFetching = True, toasts = [],
      requests = [POST_conversations (str ''anonymous'') (str ''MedAssist Chat''),
                  GET_messages 7]\<rparr>"
  by (simp add: ready_with_draft_def eval_defs)

lemma quick_action_while_initializing_eq:
  "quick_action_while_initializing =
     \<lparr>mounted = True, conversationId = None, messageInput = [], isTyping = True,
      createConversationMutation = \<lparr>mutateCount = 1, unsettled = [1]\<rparr>,
      sendMessageMutation = idle,
      quickActionMutation = \<lparr>mutateCount = 1, unsettled = [1]\<rparr>, queryData = Map.empty,
      queryFetching = False, toasts = [],
      requests = [POST_conversations (str ''anonymous'') (str ''MedAssist Chat''),
                  POST_quick_actions (str ''symptoms'')]\<rparr>"
  by (simp add: quick_action_while_initializing_def eval_defs)

lemma both_in_flight_eq:
  "both_in_flight =
     \<lparr>mounted = True, conversationId = Some 7, messageInput = str '' hi '', isTyping = True,
      createConversationMutation = \<lparr>mutateCount = 1, unsettled = []\<rparr>,
      sendMessageMutation = \<lparr>mutateCount = 1, unsettled = [1]\<rparr>,
      quickActionMutation = \<lparr>mutateCount = 1, unsettled = [1]\<rparr>, queryData = Map.empty,
      queryFetching = True, toasts = [],
      requests = [POST_conversations (str ''anonymous'') (str ''MedAssist Chat''),
                  GET_messages 7, POST_messages 7 (str ''hi''),
                  POST_quick_actions (str ''symptoms'')]\<rparr>"
  by (simp add: both_in_flight_def ready_with_draft_eq eval_defs)

lemma both_in_flight_run:
  "run init [Mount, CreateConversationSuccess 1 conversation7, Change (str '' hi ''), ClickSend,
             ClickQuickAction (str ''symptoms'')] = both_in_flight"
  by (simp add: both_in_flight_def ready_with_draft_def run_def)


lemma conversationId_step_stable:
  assumes "session_inv s" and "conversationId s = Some c"
  shows "conversationId (step s e) = Some c"
proof -
  from assms have m: "mounted s" and u: "unsettled (createConversationMutation s) = []"
    by (auto simp: session_inv_def init_def)
  show ?thesis
    using m u assms(2)
    by (cases e) (auto simp: step_def handler_defs Let_def split: option.splits)
qed

lemma conversationId_run_stable:
  "session_inv s \<Longrightarrow> conversationId s = Some c \<Longrightarrow> conversationId (run s es) = Some c"
  by (induction es arbitrary: s)
     (simp_all add: run_Nil run_Cons session_inv_step conversationId_step_stable)

lemma conversationId_changes_only_on_create:
  assumes "conversationId (step s e) \<noteq> conversationId s"
  shows "\<exists>i conv. e = CreateConversationSuccess i conv \<and>
           i \<in> set (unsettled (createConversationMutation s)) \<and>
           conversationId (step s e) = Some (conv_id conv)"
  using assms
  by (cases e; cases "mounted s")
     (auto simp: step_def handler_defs Let_def split: option.splits if_splits)

lemmas schema_defs =
  insertUserSchema_def insertConversationSchema_def insertMessageSchema_def
  createInsertSchema_def pick_def omit_def zod_of_column_def
  users_def conversations_def messages_table_def
  column_of_def pg_serial_def pg_text_def pg_integer_def pg_boolean_def pg_timestamp_def
  primaryKey_def notNull_def unique_column_def with_default_def defaultNow_def references_def

lemma insertMessageSchema_eq:
  "insertMessageSchema =
     [(''conversationId'', \<lparr>zf_type = ZodNumber, zf_nullable = True, zf_optional = True\<rparr>),
      (''role'', \<lparr>zf_type = ZodString, zf_nullable = False, zf_optional = False\<rparr>),
      (''content'', \<lparr>zf_type = ZodString, zf_nullable = False, zf_optional = False\<rparr>)]"
  by (simp add: schema_defs)

lemma insertConversationSchema_eq:
  "insertConversationSchema =
     [(''userId'', \<lparr>zf_type = ZodString, zf_nullable = True, zf_optional = True\<rparr>),
      (''title'', \<lparr>zf_type = ZodString, zf_nullable = True, zf_optional = True\<rparr>)]"
  by (simp add: schema_defs)

lemma field_output_keys: "fst ` set (field_output input kf) \<subseteq> {fst kf}"
  by (cases kf) (auto split: option.splits)

lemma concat_field_output_keys:
  "fst ` set (concat (map (field_output input) shape)) \<subseteq> fst ` set shape"
proof (induction shape)
  case Nil
  show ?case by simp
next
  case (Cons kf shape)
  have "fst ` set (field_output input kf) \<subseteq> {fst kf}"
    by (rule field_output_keys)
  with Cons show ?case by auto
qed

lemma safeParse_keys:
  assumes "safeParse shape input = Inr out"
  shows "fst ` set out \<subseteq> fst ` set shape"
proof -
  from assms have "out = concat (map (field_output input) shape)"
    by (simp add: safeParse_def Let_def split: if_splits)
  then show ?thesis
    using concat_field_output_keys [of input shape] by simp
qed

section \<open>Sending a message\<close>




section \<open>Quick actions\<close>

text \<open>
  Claim C2. When a quick action succeeds while a conversation id is held, the displayed
  list is the old list followed by one message with role \<open>assistant\<close> and the returned
  content; no request is issued and no fetch is started.
\<close>

theorem quickAction_success_appends_locally:
  assumes "mounted s" and "conversationId s = Some c" and "c \<noteq> 0"
    and "i \<in> set (unsettled (quickActionMutation s))"
  shows
  "messages (step s (QuickActionSuccess i content now date)) =
     messages s @ [fakeAssistantMessage c content now date] \<and>
   msg_role (fakeAssistantMessage c content now date) = str ''assistant'' \<and>
   msg_content (fakeAssistantMessage c content now date) = content \<and>
   requests (step s (QuickActionSuccess i content now date)) = requests s \<and>
   queryFetching (step s (QuickActionSuccess i content now date)) = queryFetching s"
  using assms
  by (simp add: step_def handler_defs messages_def fakeAssistantMessage_def split: option.splits)

theorem quickAction_success_appends_locally_witness:
  "mounted both_in_flight \<and> conversationId both_in_flight = Some 7 \<and>
   1 \<in> set (unsettled (quickActionMutation both_in_flight)) \<and>
   messages both_in_flight = [] \<and>
   messages (step both_in_flight (QuickActionSuccess 1 (str ''Rest.'') 1700 1701)) =
     [\<lparr>msg_id = 1700, msg_conversationId = Some 7, msg_role = str ''assistant'',
       msg_content = str ''Rest.'', msg_timestamp = Some 1701, msg_isTyping = Some False\<rparr>] \<and>
   requests (step both_in_flight (QuickActionSuccess 1 (str ''Rest.'') 1700 1701)) =
     requests both_in_flight"
proof -
  have b: "mounted both_in_flight" "conversationId both_in_flight = Some 7" "(7::int) \<noteq> 0"
    "1 \<in> set (unsettled (quickActionMutation both_in_flight))"
    by (simp_all add: both_in_flight_eq)
  have m: "messages both_in_flight = []"
    by (simp add: both_in_flight_eq messages_def)
  show ?thesis
    using quickAction_success_appends_locally [OF b, of "str ''Rest.''" 1700 1701] b m
    by (simp add: fakeAssistantMessage_def)
qed

section \<open>The send handler\<close>

text \<open>
  Claim C3. When the trimmed draft is empty, or a send is pending, \<open>handleSendMessage\<close>
  (and with it a click on the send button or the Enter key) returns the state as it is,
  so no request leaves. When \<open>handleSendMessage\<close> does issue a request, it is one
  \<open>POST_messages\<close> whose content is the trimmed draft, which is non-empty and neither
  starts nor ends with a white space code point.
\<close>

theorem handleSendMessage_sends_trimmed_draft:
  "(trim (messageInput s) = [] \<or> isPending (sendMessageMutation s) \<longrightarrow>
      handleSendMessage s = s \<and> step s ClickSend = s \<and> step s (KeyDown (str ''Enter'') False) = s) \<and>
   (requests (handleSendMessage s) \<noteq> requests s \<longrightarrow>
      (\<exists>c. requests (handleSendMessage s) =
              requests s @ [POST_messages c (trim (messageInput s))]) \<and>
      trim (messageInput s) \<noteq> [] \<and>
      \<not> isWhiteSpace (hd (trim (messageInput s))) \<and>
      \<not> isWhiteSpace (last (trim (messageInput s))))"
proof -
  have guard: "handleSendMessage s = s"
    if "trim (messageInput s) = [] \<or> isPending (sendMessageMutation s)"
    using that by (auto simp: handleSendMessage_def truthy_string_def)
  have events: "step s ClickSend = s \<and> step s (KeyDown (str ''Enter'') False) = s"
    if "trim (messageInput s) = [] \<or> isPending (sendMessageMutation s)"
    using that guard
    by (auto simp: step_def sendButton_disabled_def textarea_disabled_def handleKeyDown_def)
  have sent: "(\<exists>c. requests (handleSendMessage s) =
              requests s @ [POST_messages c (trim (messageInput s))]) \<and>
      trim (messageInput s) \<noteq> []"
    if "requests (handleSendMessage s) \<noteq> requests s"
    using that
    by (auto simp: handler_defs truthy_string_def Let_def split: if_splits option.splits)
  show ?thesis
    using guard events sent trim_hd trim_last by blast
qed

theorem handleSendMessage_sends_trimmed_draft_witness:
  "trim (messageInput init) = [] \<and> handleSendMessage init = init \<and>
   requests (handleSendMessage ready_with_draft) \<noteq> requests ready_with_draft \<and>
   requests (handleSendMessage ready_with_draft) =
     requests ready_with_draft @ [POST_messages 7 (str ''hi'')] \<and>
   trim (messageInput ready_with_draft) = str ''hi''"
proof -
  have t: "trim (messageInput ready_with_draft) = str ''hi''"
    by (simp add: ready_with_draft_eq trim_def str_def isWhiteSpace_def)
  have e: "trim (messageInput init) = []"
    by (simp add: init_def trim_def)
  have r: "requests (handleSendMessage ready_with_draft) \<noteq> requests ready_with_draft"
    by (simp add: ready_with_draft_eq eval_defs)
  from handleSendMessage_sends_trimmed_draft [of ready_with_draft] r t
  have "\<exists>c. requests (handleSendMessage ready_with_draft) =
              requests ready_with_draft @ [POST_messages c (str ''hi'')]"
    by simp
  moreover have "conversationId ready_with_draft = Some 7"
    by (simp add: ready_with_draft_eq)
  ultimately have "requests (handleSendMessage ready_with_draft) =
     requests ready_with_draft @ [POST_messages 7 (str ''hi'')]"
    by (auto simp: ready_with_draft_eq eval_defs)
  with handleSendMessage_sends_trimmed_draft [of init] e r t show ?thesis by simp
qed

section \<open>The typing flag\<close>

text \<open>
  Claim C4. On a mounted page, every user event that issues a request (a click on the send
  button, a key press in the text area, a click on a quick action) leaves the typing flag
  set. Every completion of a send or of a quick action that is in flight, a success or a
  failure, leaves the typing flag cleared; after a failure the page is still mounted and
  shows one more toast.
\<close>

theorem typing_flag_set_and_cleared:
  assumes "mounted s"
  shows
  "(requests (step s ClickSend) \<noteq> requests s \<longrightarrow> isTyping (step s ClickSend)) \<and>
   (requests (step s (KeyDown key shiftKey)) \<noteq> requests s \<longrightarrow>
      isTyping (step s (KeyDown key shiftKey))) \<and>
   (requests (step s (ClickQuickAction action)) \<noteq> requests s \<longrightarrow>
      isTyping (step s (ClickQuickAction action))) \<and>
   (i \<in> set (unsettled (sendMessageMutation s)) \<longrightarrow>
      \<not> isTyping (step s (SendMessageSuccess i)) \<and>
      \<not> isTyping (step s (SendMessageError i error)) \<and>
      mounted (step s (SendMessageError i error)) \<and>
      length (toasts (step s (SendMessageError i error))) = Suc (length (toasts s))) \<and>
   (j \<in> set (unsettled (quickActionMutation s)) \<longrightarrow>
      \<not> isTyping (step s (QuickActionSuccess j content now date)) \<and>
      \<not> isTyping (step s (QuickActionError j error)) \<and>
      mounted (step s (QuickActionError j error)) \<and>
      length (toasts (step s (QuickActionError j error))) = Suc (length (toasts s)))"
proof -
  have click: "isTyping (step s ClickSend)" if "requests (step s ClickSend) \<noteq> requests s"
    using that assms
    by (auto simp: step_def handler_defs Let_def split: if_splits option.splits)
  have key: "isTyping (step s (KeyDown key shiftKey))"
    if "requests (step s (KeyDown key shiftKey)) \<noteq> requests s"
    using that assms
    by (auto simp: step_def handler_defs Let_def split: if_splits option.splits)
  have quick: "isTyping (step s (ClickQuickAction action))"
    if "requests (step s (ClickQuickAction action)) \<noteq> requests s"
    using that assms
    by (auto simp: step_def handler_defs Let_def split: if_splits)
  have send_done: "\<not> isTyping (step s (SendMessageSuccess i)) \<and>
      \<not> isTyping (step s (SendMessageError i error)) \<and>
      mounted (step s (SendMessageError i error)) \<and>
      length (toasts (step s (SendMessageError i error))) = Suc (length (toasts s))"
    if "i \<in> set (unsettled (sendMessageMutation s))"
    using that assms by (simp add: step_def handler_defs)
  have quick_done: "\<not> isTyping (step s (QuickActionSuccess j content now date)) \<and>
      \<not> isTyping (step s (QuickActionError j error)) \<and>
      mounted (step s (QuickActionError j error)) \<and>
      length (toasts (step s (QuickActionError j error))) = Suc (length (toasts s))"
    if "j \<in> set (unsettled (quickActionMutation s))"
    using that assms by (simp add: step_def handler_defs Let_def split: option.splits)
  show ?thesis
    using click key quick send_done quick_done by blast
qed

theorem typing_flag_set_and_cleared_witness:
  "mounted ready_with_draft \<and>
   requests (step ready_with_draft ClickSend) \<noteq> requests ready_with_draft \<and>
   isTyping (step ready_with_draft ClickSend) \<and>
   requests (step ready_with_draft (KeyDown (str ''Enter'') False)) \<noteq>
     requests ready_with_draft \<and>
   isTyping (step ready_with_draft (KeyDown (str ''Enter'') False)) \<and>
   requests (step ready_with_draft (ClickQuickAction (str ''wellness''))) \<noteq>
     requests ready_with_draft \<and>
   isTyping (step ready_with_draft (ClickQuickAction (str ''wellness''))) \<and>
   mounted both_in_flight \<and> isTyping both_in_flight \<and>
   1 \<in> set (unsettled (sendMessageMutation both_in_flight)) \<and>
   1 \<in> set (unsettled (quickActionMutation both_in_flight)) \<and>
   \<not> isTyping (step both_in_flight (SendMessageSuccess 1)) \<and>
   \<not> isTyping (step both_in_flight (SendMessageError 1 OtherValue)) \<and>
   \<not> isTyping (step both_in_flight (QuickActionSuccess 1 (str ''Rest.'') 1700 1701)) \<and>
   \<not> isTyping (step both_in_flight (QuickActionError 1 OtherValue))"
proof -
  have a: "mounted ready_with_draft"
    "requests (step ready_with_draft ClickSend) \<noteq> requests ready_with_draft"
    "requests (step ready_with_draft (ClickQuickAction (str ''wellness''))) \<noteq>
       requests ready_with_draft"
    "requests (step ready_with_draft (KeyDown (str ''Enter'') False)) \<noteq>
       requests ready_with_draft"
    by (simp_all add: ready_with_draft_eq eval_defs)
  have b: "mounted both_in_flight" "isTyping both_in_flight"
    "1 \<in> set (unsettled (sendMessageMutation both_in_flight))"
    "1 \<in> set (unsettled (quickActionMutation both_in_flight))"
    by (simp_all add: both_in_flight_eq)
  show ?thesis
    using typing_flag_set_and_cleared [OF a(1), of "str ''Enter''" False "str ''wellness''" 1 OtherValue 1 "[]" 0 0]
      typing_flag_set_and_cleared [OF b(1), of "str ''Enter''" False "str ''wellness''" 1 OtherValue 1 "str ''Rest.''" 1700 1701]
      a b
    by simp
qed

section \<open>Requests in flight\<close>



section \<open>Creating the conversation\<close>

text \<open>
  Claim C6. The mount of a page that holds no conversation id issues one
  \<open>POST_conversations\<close> for the user \<open>anonymous\<close> with the title \<open>MedAssist Chat\<close>.
  When that request succeeds the returned id is stored, which enables the message query
  when the id is not 0, and no toast is added. When it fails one error toast is added and
  nothing else changes but the mutation being settled: no request is issued and the
  conversation id stays as it was. A session never issues more than one
  \<open>POST_conversations\<close>, and while that request is in flight the conversation id is
  unset.
\<close>

theorem createConversation_on_mount:
  "(\<not> mounted s \<and> \<not> truthy_number (conversationId s) \<longrightarrow>
      step s Mount =
        s\<lparr>mounted := True, createConversationMutation := start (createConversationMutation s),
          requests := requests s @
            [POST_conversations (str ''anonymous'') (str ''MedAssist Chat'')]\<rparr>) \<and>
   (mounted s \<and> i \<in> set (unsettled (createConversationMutation s)) \<longrightarrow>
      conversationId (step s (CreateConversationSuccess i conv)) = Some (conv_id conv) \<and>
      (conv_id conv \<noteq> 0 \<longrightarrow> query_enabled (step s (CreateConversationSuccess i conv))) \<and>
      toasts (step s (CreateConversationSuccess i conv)) = toasts s) \<and>
   (mounted s \<and> i \<in> set (unsettled (createConversationMutation s)) \<longrightarrow>
      step s (CreateConversationError i error) =
        s\<lparr>createConversationMutation := settle i (createConversationMutation s),
          toasts := toasts s @
            [\<lparr>toast_title = str ''Error'',
              toast_description = str ''Failed to start conversation. Please refresh the page.'',
              toast_variant = str ''destructive''\<rparr>]\<rparr>) \<and>
   length (filter is_POST_conversations (requests (run init es))) \<le> 1 \<and>
   (unsettled (createConversationMutation (run init es)) \<noteq> [] \<longrightarrow>
      conversationId (run init es) = None)"
proof -
  have on_mount: "step s Mount =
        s\<lparr>mounted := True, createConversationMutation := start (createConversationMutation s),
          requests := requests s @
            [POST_conversations (str ''anonymous'') (str ''MedAssist Chat'')]\<rparr>"
    if "\<not> mounted s \<and> \<not> truthy_number (conversationId s)"
    using that by (simp add: step_def handler_defs Let_def)
  have success: "conversationId (step s (CreateConversationSuccess i conv)) = Some (conv_id conv) \<and>
      (conv_id conv \<noteq> 0 \<longrightarrow> query_enabled (step s (CreateConversationSuccess i conv))) \<and>
      toasts (step s (CreateConversationSuccess i conv)) = toasts s"
    if "mounted s \<and> i \<in> set (unsettled (createConversationMutation s))"
    using that by (simp add: step_def handler_defs Let_def)
  have failure: "step s (CreateConversationError i error) =
        s\<lparr>createConversationMutation := settle i (createConversationMutation s),
          toasts := toasts s @
            [\<lparr>toast_title = str ''Error'',
              toast_description = str ''Failed to start conversation. Please refresh the page.'',
              toast_variant = str ''destructive''\<rparr>]\<rparr>"
    if "mounted s \<and> i \<in> set (unsettled (createConversationMutation s))"
    using that by (simp add: step_def handler_defs)
  have inv: "session_inv (run init es)"
    by (rule session_inv_reachable)
  have once: "length (filter is_POST_conversations (requests (run init es))) \<le> 1"
    using inv by (cases "mounted (run init es)") (auto simp: session_inv_def init_def)
  have unset: "conversationId (run init es) = None"
    if "unsettled (createConversationMutation (run init es)) \<noteq> []"
    using that inv by (auto simp: session_inv_def)
  show ?thesis
    using on_mount success failure once unset by blast
qed

theorem createConversation_on_mount_witness:
  "\<not> mounted init \<and> \<not> truthy_number (conversationId init) \<and>
   requests (step init Mount) = [POST_conversations (str ''anonymous'') (str ''MedAssist Chat'')] \<and>
   mounted (step init Mount) \<and>
   1 \<in> set (unsettled (createConversationMutation (step init Mount))) \<and>
   conversationId (step (step init Mount) (CreateConversationSuccess 1 conversation7)) = Some 7 \<and>
   query_enabled (step (step init Mount) (CreateConversationSuccess 1 conversation7)) \<and>
   conversationId (step (step init Mount) (CreateConversationError 1 OtherValue)) = None \<and>
   requests (step (step init Mount) (CreateConversationError 1 OtherValue)) =
     [POST_conversations (str ''anonymous'') (str ''MedAssist Chat'')] \<and>
   length (toasts (step (step init Mount) (CreateConversationError 1 OtherValue))) = 1 \<and>
   length (filter is_POST_conversations
     (requests (run init [Mount, CreateConversationError 1 OtherValue, Mount]))) \<le> 1 \<and>
   unsettled (createConversationMutation (run init [Mount])) \<noteq> [] \<and>
   conversationId (run init [Mount]) = None"
proof -
  have a: "\<not> mounted init" "\<not> truthy_number (conversationId init)" "requests init = []"
    "conversationId init = None" "toasts init = []"
    by (simp_all add: init_def)
  have b: "mounted (step init Mount)"
    "1 \<in> set (unsettled (createConversationMutation (step init Mount)))"
    "conv_id conversation7 = 7"
    "unsettled (createConversationMutation (run init [Mount])) \<noteq> []"
    by (simp_all add: eval_defs)
  show ?thesis
    using a b
      createConversation_on_mount [of init 1 conversation7 OtherValue "[Mount]"]
      createConversation_on_mount [of "step init Mount" 1 conversation7 OtherValue
             "[Mount, CreateConversationError 1 OtherValue, Mount]"]
    by simp
qed

section \<open>The insert schemas\<close>

text \<open>
  Claim C7 asks that validation accepts a message only with role \<open>user\<close> or
  \<open>assistant\<close>, as the comment on the \<open>role\<close> column says. The column is a plain text
  column, so \<open>insertMessageSchema\<close> takes any string: it accepts the role \<open>system\<close>.
\<close>

theorem insertMessageSchema_accepts_other_role:
  "safeParse insertMessageSchema
     [(''conversationId'', Number 1), (''role'', String (str ''system'')),
      (''content'', String (str ''hi''))] =
   Inr [(''conversationId'', Number 1), (''role'', String (str ''system'')),
        (''content'', String (str ''hi''))] \<and>
   str ''system'' \<noteq> str ''user'' \<and> str ''system'' \<noteq> str ''assistant''"
  by (simp add: insertMessageSchema_eq safeParse_def str_def)

text \<open>
  Claim C8. \<open>insertMessageSchema\<close> has the fields \<open>conversationId\<close>, \<open>role\<close> and
  \<open>content\<close>, and \<open>insertConversationSchema\<close> the fields \<open>userId\<close> and \<open>title\<close>.
  Whatever the input, a successful parse returns only properties among those fields: never
  an \<open>id\<close>, a \<open>timestamp\<close>, an \<open>isTyping\<close> or a \<open>createdAt\<close>.
\<close>

theorem insert_schemas_fields:
  "map fst insertMessageSchema = [''conversationId'', ''role'', ''content''] \<and>
   map fst insertConversationSchema = [''userId'', ''title''] \<and>
   (safeParse insertMessageSchema input = Inr out \<longrightarrow>
      fst ` set out \<subseteq> {''conversationId'', ''role'', ''content''} \<and>
      ''id'' \<notin> fst ` set out \<and> ''timestamp'' \<notin> fst ` set out \<and> ''isTyping'' \<notin> fst ` set out) \<and>
   (safeParse insertConversationSchema input' = Inr out' \<longrightarrow>
      fst ` set out' \<subseteq> {''userId'', ''title''} \<and>
      ''id'' \<notin> fst ` set out' \<and> ''createdAt'' \<notin> fst ` set out')"
proof -
  have m: "fst ` set out \<subseteq> {''conversationId'', ''role'', ''content''}"
    if "safeParse insertMessageSchema input = Inr out"
    using safeParse_keys [OF that] by (simp add: insertMessageSchema_eq)
  have c: "fst ` set out' \<subseteq> {''userId'', ''title''}"
    if "safeParse insertConversationSchema input' = Inr out'"
    using safeParse_keys [OF that] by (simp add: insertConversationSchema_eq)
  have m': "''id'' \<notin> fst ` set out \<and> ''timestamp'' \<notin> fst ` set out \<and> ''isTyping'' \<notin> fst ` set out"
    if "safeParse insertMessageSchema input = Inr out"
    using m [OF that] by auto
  have c': "''id'' \<notin> fst ` set out' \<and> ''createdAt'' \<notin> fst ` set out'"
    if "safeParse insertConversationSchema input' = Inr out'"
    using c [OF that] by auto
  show ?thesis
    using m c m' c' by (simp add: insertMessageSchema_eq insertConversationSchema_eq)
qed

theorem insert_schemas_fields_witness:
  "safeParse insertMessageSchema
     [(''id'', Number 99), (''conversationId'', Number 1), (''role'', String (str ''user'')),
      (''content'', String (str ''hi'')), (''timestamp'', Date 0), (''isTyping'', Bool True)] =
   Inr [(''conversationId'', Number 1), (''role'', String (str ''user'')),
        (''content'', String (str ''hi''))] \<and>
   safeParse insertConversationSchema
     [(''id'', Number 5), (''userId'', String (str ''anonymous'')),
      (''title'', String (str ''MedAssist Chat'')), (''createdAt'', Date 0)] =
   Inr [(''userId'', String (str ''anonymous'')), (''title'', String (str ''MedAssist Chat''))] \<and>
   ''id'' \<notin> fst ` set [(''conversationId'', Number 1), (''role'', String (str ''user'')),
        (''content'', String (str ''hi''))]"
proof -
  have a: "safeParse insertMessageSchema
     [(''id'', Number 99), (''conversationId'', Number 1), (''role'', String (str ''user'')),
      (''content'', String (str ''hi'')), (''timestamp'', Date 0), (''isTyping'', Bool True)] =
   Inr [(''conversationId'', Number 1), (''role'', String (str ''user'')),
        (''content'', String (str ''hi''))]"
    by (simp add: insertMessageSchema_eq safeParse_def)
  have b: "safeParse insertConversationSchema
     [(''id'', Number 5), (''userId'', String (str ''anonymous'')),
      (''title'', String (str ''MedAssist Chat'')), (''createdAt'', Date 0)] =
   Inr [(''userId'', String (str ''anonymous'')), (''title'', String (str ''MedAssist Chat''))]"
    by (simp add: insertConversationSchema_eq safeParse_def)
  show ?thesis
    using a b insert_schemas_fields [of "[(''id'', Number 99), (''conversationId'', Number 1), (''role'', String (str ''user'')),
      (''content'', String (str ''hi'')), (''timestamp'', Date 0), (''isTyping'', Bool True)]"
      "[(''conversationId'', Number 1), (''role'', String (str ''user'')),
        (''content'', String (str ''hi''))]"
      "[(''id'', Number 5), (''userId'', String (str ''anonymous'')),
      (''title'', String (str ''MedAssist Chat'')), (''createdAt'', Date 0)]"
      "[(''userId'', String (str ''anonymous'')), (''title'', String (str ''MedAssist Chat''))]"]
    by simp
qed

section \<open>A quick action before the conversation exists\<close>

text \<open>
  Claim C9. When a quick action succeeds while no conversation id is held, the state
  changes in two places only: the mutation is settled and the typing flag is cleared. The
  displayed list, the query cache, the toasts and the requests are as before.
\<close>

theorem quickAction_success_without_conversation_id:
  assumes "mounted s" and "\<not> truthy_number (conversationId s)"
    and "i \<in> set (unsettled (quickActionMutation s))"
  shows
  "step s (QuickActionSuccess i content now date) =
     s\<lparr>quickActionMutation := settle i (quickActionMutation s), isTyping := False\<rparr> \<and>
   messages (step s (QuickActionSuccess i content now date)) = messages s \<and>
   queryData (step s (QuickActionSuccess i content now date)) = queryData s \<and>
   toasts (step s (QuickActionSuccess i content now date)) = toasts s \<and>
   requests (step s (QuickActionSuccess i content now date)) = requests s \<and>
   \<not> isTyping (step s (QuickActionSuccess i content now date))"
  using assms
  by (simp add: step_def handler_defs messages_def)

theorem quickAction_success_without_conversation_id_witness:
  "mounted quick_action_while_initializing \<and>
   \<not> truthy_number (conversationId quick_action_while_initializing) \<and>
   1 \<in> set (unsettled (quickActionMutation quick_action_while_initializing)) \<and>
   isTyping quick_action_while_initializing \<and>
   messages (step quick_action_while_initializing (QuickActionSuccess 1 (str ''Rest.'') 1700 1701)) = [] \<and>
   toasts (step quick_action_while_initializing (QuickActionSuccess 1 (str ''Rest.'') 1700 1701)) = [] \<and>
   \<not> isTyping (step quick_action_while_initializing (QuickActionSuccess 1 (str ''Rest.'') 1700 1701))"
proof -
  have q: "mounted quick_action_while_initializing"
    "\<not> truthy_number (conversationId quick_action_while_initializing)"
    "1 \<in> set (unsettled (quickActionMutation quick_action_while_initializing))"
    by (simp_all add: quick_action_while_initializing_eq)
  have m: "messages quick_action_while_initializing = []"
    "toasts quick_action_while_initializing = []" "isTyping quick_action_while_initializing"
    by (simp_all add: quick_action_while_initializing_eq messages_def)
  show ?thesis
    using quickAction_success_without_conversation_id [OF q, of "str ''Rest.''" 1700 1701] q m by (simp add: messages_def)
qed

section \<open>The conversation id of a session\<close>

text \<open>
  Claim C10. The conversation id starts unset. A step changes it only when it is the
  success of a conversation request in flight, and then to the returned id. Once a session
  holds an id, it holds the same id after any further events. Every \<open>POST_messages\<close> a
  session has issued went to the id it holds.
\<close>

theorem conversationId_written_once:
  "conversationId init = None \<and>
   (conversationId (step s e) \<noteq> conversationId s \<longrightarrow>
      (\<exists>i conv. e = CreateConversationSuccess i conv \<and>
         i \<in> set (unsettled (createConversationMutation s)) \<and>
         conversationId (step s e) = Some (conv_id conv))) \<and>
   (conversationId (run init es) = Some c \<longrightarrow> conversationId (run init (es @ es')) = Some c) \<and>
   (POST_messages c' content \<in> set (requests (run init es)) \<longrightarrow>
      conversationId (run init es) = Some c')"
proof -
  have start: "conversationId init = None"
    by (simp add: init_def)
  have stable: "conversationId (run init (es @ es')) = Some c"
    if "conversationId (run init es) = Some c"
    using that session_inv_reachable [of es]
    by (simp add: run_append conversationId_run_stable)
  have target: "conversationId (run init es) = Some c'"
    if "POST_messages c' content \<in> set (requests (run init es))"
    using that session_inv_reachable [of es] unfolding session_inv_def by blast
  show ?thesis
    using start conversationId_changes_only_on_create stable target by blast
qed

theorem conversationId_written_once_witness:
  "conversationId (step (step init Mount) (CreateConversationSuccess 1 conversation7)) \<noteq>
     conversationId (step init Mount) \<and>
   conversationId (run init [Mount, CreateConversationSuccess 1 conversation7]) = Some 7 \<and>
   conversationId (run init ([Mount, CreateConversationSuccess 1 conversation7] @
     [Change (str ''hi''), ClickSend, CreateConversationSuccess 1 (conversation7\<lparr>conv_id := 8\<rparr>),
      SendMessageSuccess 1])) = Some 7 \<and>
   POST_messages 7 (str ''hi'') \<in> set (requests
     (run init [Mount, CreateConversationSuccess 1 conversation7, Change (str '' hi ''),
                ClickSend, ClickQuickAction (str ''symptoms'')])) \<and>
   conversationId
     (run init [Mount, CreateConversationSuccess 1 conversation7, Change (str '' hi ''),
                ClickSend, ClickQuickAction (str ''symptoms'')]) = Some 7"
proof -
  have a: "conversationId (step (step init Mount) (CreateConversationSuccess 1 conversation7)) \<noteq>
     conversationId (step init Mount)"
    by (simp add: eval_defs)
  have b: "conversationId (run init [Mount, CreateConversationSuccess 1 conversation7]) = Some 7"
    by (simp add: eval_defs)
  have c: "POST_messages 7 (str ''hi'') \<in> set (requests
     (run init [Mount, CreateConversationSuccess 1 conversation7, Change (str '' hi ''),
                ClickSend, ClickQuickAction (str ''symptoms'')]))"
    unfolding both_in_flight_run by (simp add: both_in_flight_eq)
  show ?thesis
    using a b c
      conversationId_written_once [of "step init Mount" "CreateConversationSuccess 1 conversation7"
              "[Mount, CreateConversationSuccess 1 conversation7, Change (str '' hi ''),
                ClickSend, ClickQuickAction (str ''symptoms'')]" 7 "[]" 7 "str ''hi''"]
      conversationId_written_once [of "step init Mount" "CreateConversationSuccess 1 conversation7"
              "[Mount, CreateConversationSuccess 1 conversation7]" 7
              "[Change (str ''hi''), ClickSend,
                CreateConversationSuccess 1 (conversation7\<lparr>conv_id := 8\<rparr>), SendMessageSuccess 1]"
              7 "str ''hi''"]
    by simp
qed

end
